theory Spec2Isabelle
  imports Complex_Main "HOL-Library.Multiset" "HOL-Library.Char_ord" "HOL-Library.List_Lexorder"
begin

section \<open>Data model\<close>

text \<open>
  The analytics services of the finance tracker (anomaly detection, category patterns,
  cash-flow forecast, health score, recurring detection) are embedded as functions of the
  rows the ledger query returned. A JavaScript number is modelled as an exact \<^typ>\<open>real\<close>
  (no rounding); \<open>Number(t.amount)\<close> is the field \<open>amount\<close> itself. The query result
  \<open>data\<close> may be \<open>null\<close>, hence every service takes a \<open>txn list option\<close>.
\<close>

datatype txnType = Income | Expense | Transfer

text \<open>A calendar date as the ledger stores it (\<open>YYYY-MM-DD\<close>, month 1..12).\<close>

record isodate =
  iso_year :: int
  iso_month :: int
  iso_day :: int

text \<open>
  One row of \<open>transactions\<close> with the columns the services select; \<open>category_name\<close> is the
  joined \<open>categories(name)\<close> (\<open>None\<close> when the join or the name is null), \<open>created_at\<close> is
  the creation timestamp in milliseconds since the epoch.
\<close>

record txn =
  txn_id :: string
  amount :: real
  txn_type :: txnType
  merchant :: "string option"
  transaction_date :: isodate
  category_id :: "string option"
  category_name :: "string option"
  account_id :: string
  created_at :: int

section \<open>Health scorer\<close>





section \<open>JavaScript helpers\<close>

text \<open>\<open>s || d\<close> on a nullable string: \<open>null\<close> and the empty string are falsy.\<close>

definition orElse :: "string option \<Rightarrow> string \<Rightarrow> string" where
  "orElse s d = (case s of None \<Rightarrow> d | Some v \<Rightarrow> if v = [] then d else v)"

text \<open>\<open>xs.reduce((a, b) => a + b, 0)\<close>.\<close>

definition sumList :: "real list \<Rightarrow> real" where
  "sumList xs = foldl (\<lambda>a b. a + b) 0 xs"

text \<open>\<open>xs.reduce((sq, n) => sq + Math.pow(n - avg, 2), 0)\<close>.\<close>

definition sumSquares :: "real \<Rightarrow> real list \<Rightarrow> real" where
  "sumSquares avg xs = foldl (\<lambda>sq n. sq + (n - avg) ^ 2) 0 xs"

section \<open>Anomaly detector\<close>

datatype alertType = SuddenSpike | UnusualCategory | Duplicate | PatternBreak

datatype severityLevel = Low | Medium | High

text \<open>
  The description of an alert is a message formatted for display; the model keeps the
  values that go into it (amount, merchant and average for a spike; the two merchant labels
  and the amount for a duplicate) instead of the locale-formatted text.
\<close>

datatype alertDescription =
    SpikeText real "string option" real
  | DuplicateText "string list" real

record anomalyAlert =
  alert_type :: alertType
  severity :: severityLevel
  title :: string
  description :: alertDescription
  alert_amount :: real
  alert_date :: isodate

definition similarTo :: "txn list \<Rightarrow> txn \<Rightarrow> txn list" where
  "similarTo transactions c =
     filter (\<lambda>t. category_id t = category_id c \<and> txn_type t = Expense \<and>
                 txn_id t \<noteq> txn_id c \<and> \<bar>amount t - amount c\<bar> < amount c * 0.2)
            transactions"

definition spikeAmounts :: "txn list \<Rightarrow> txn \<Rightarrow> real list" where
  "spikeAmounts transactions c = amount c # map amount (similarTo transactions c)"

definition spikeAvg :: "real list \<Rightarrow> real" where
  "spikeAvg amounts = sumList amounts / real (length amounts)"

definition spikeStdDev :: "real list \<Rightarrow> real" where
  "spikeStdDev amounts = sqrt (sumSquares (spikeAvg amounts) amounts / real (length amounts))"

definition isSpike :: "txn list \<Rightarrow> txn \<Rightarrow> bool" where
  "isSpike transactions c =
     (let amounts = spikeAmounts transactions c
      in amount c > spikeAvg amounts + 2 * spikeStdDev amounts)"

definition spikeAlert :: "txn list \<Rightarrow> txn \<Rightarrow> anomalyAlert" where
  "spikeAlert transactions c =
     \<lparr>alert_type = SuddenSpike, severity = High,
      title = ''Unusual spike in '' @ orElse (category_name c) ''category'' @ '' spending'',
      description = SpikeText (amount c) (merchant c) (spikeAvg (spikeAmounts transactions c)),
      alert_amount = amount c,
      alert_date = transaction_date c\<rparr>"

text \<open>The loop over \<open>recentTransactions\<close>, pushing onto \<open>alerts\<close>.\<close>

fun spikeLoop :: "txn list \<Rightarrow> txn list \<Rightarrow> anomalyAlert list \<Rightarrow> anomalyAlert list" where
  "spikeLoop transactions [] alerts = alerts"
| "spikeLoop transactions (c # rest) alerts =
     (if txn_type c \<noteq> Expense then spikeLoop transactions rest alerts
      else if length (similarTo transactions c) = 0 then spikeLoop transactions rest alerts
      else if isSpike transactions c
           then spikeLoop transactions rest (alerts @ [spikeAlert transactions c])
           else spikeLoop transactions rest alerts)"

record duplicateHit =
  merchants :: "string list"
  dup_amount :: real
  dup_date :: isodate

definition pairKey :: "txn \<Rightarrow> txn \<Rightarrow> string" where
  "pairKey t1 t2 = txn_id t1 @ ''-'' @ txn_id t2"

definition timeDiff :: "txn \<Rightarrow> txn \<Rightarrow> real" where
  "timeDiff t1 t2 = \<bar>real_of_int (created_at t1) - real_of_int (created_at t2)\<bar> / (1000 * 60)"

definition isDuplicatePair :: "txn \<Rightarrow> txn \<Rightarrow> bool" where
  "isDuplicatePair t1 t2 =
     (amount t1 = amount t2 \<and> txn_type t1 = txn_type t2 \<and>
      timeDiff t1 t2 < 60 \<and> timeDiff t1 t2 > 0)"

definition duplicateOf :: "txn \<Rightarrow> txn \<Rightarrow> duplicateHit" where
  "duplicateOf t1 t2 =
     \<lparr>merchants = [orElse (merchant t1) ''Unknown'', orElse (merchant t2) ''Unknown''],
      dup_amount = amount t1, dup_date = transaction_date t1\<rparr>"

text \<open>The inner loop over \<open>j\<close>, with the state \<open>(duplicates, checked)\<close>.\<close>

fun dupInner :: "txn \<Rightarrow> txn list \<Rightarrow> duplicateHit list \<times> string set \<Rightarrow> duplicateHit list \<times> string set" where
  "dupInner t1 [] st = st"
| "dupInner t1 (t2 # rest) (duplicates, checked) =
     (if pairKey t1 t2 \<in> checked then dupInner t1 rest (duplicates, checked)
      else if isDuplicatePair t1 t2
           then dupInner t1 rest (duplicates @ [duplicateOf t1 t2], insert (pairKey t1 t2) checked)
           else dupInner t1 rest (duplicates, checked))"

text \<open>The outer loop over \<open>i\<close>; the inner loop runs over the transactions after \<open>i\<close>.\<close>

fun dupOuter :: "txn list \<Rightarrow> duplicateHit list \<times> string set \<Rightarrow> duplicateHit list \<times> string set" where
  "dupOuter [] st = st"
| "dupOuter (t1 # rest) st = dupOuter rest (dupInner t1 rest st)"

definition findDuplicateTransactions :: "txn list \<Rightarrow> duplicateHit list" where
  "findDuplicateTransactions transactions = fst (dupOuter transactions ([], {}))"

definition duplicateAlert :: "duplicateHit \<Rightarrow> anomalyAlert" where
  "duplicateAlert dup =
     \<lparr>alert_type = Duplicate, severity = Medium,
      title = ''Possible duplicate transaction detected'',
      description = DuplicateText (merchants dup) (dup_amount dup),
      alert_amount = dup_amount dup,
      alert_date = dup_date dup\<rparr>"

definition detectAnomalies :: "txn list option \<Rightarrow> anomalyAlert list" where
  "detectAnomalies data =
     (case data of
        None \<Rightarrow> []
      | Some transactions \<Rightarrow>
          if length transactions = 0 then []
          else spikeLoop transactions (take 10 transactions) []
               @ map duplicateAlert (findDuplicateTransactions transactions))"

section \<open>Trend ratio\<close>

text \<open>The accumulation loop of \<open>calculateTrend\<close>: \<open>(sumXY, sumX, sumX2, sumY)\<close> from index \<open>i\<close> on.\<close>

fun trendSums :: "real list \<Rightarrow> nat \<Rightarrow> real \<times> real \<times> real \<times> real \<Rightarrow> real \<times> real \<times> real \<times> real" where
  "trendSums [] i acc = acc"
| "trendSums (v # vs) i (sumXY, sumX, sumX2, sumY) =
     trendSums vs (Suc i) (sumXY + real i * v, sumX + real i, sumX2 + real i * real i, sumY + v)"

definition calculateTrend :: "real list \<Rightarrow> real" where
  "calculateTrend vals =
     (if length vals < 2 then 0
      else
        case trendSums vals 0 (0, 0, 0, 0) of (sumXY, sumX, sumX2, sumY) \<Rightarrow>
          let n = real (length vals);
              numerator = n * sumXY - sumX * sumY;
              denominator = n * sumX2 - sumX * sumX
          in if denominator = 0 then 0
             else
               let slope = numerator / denominator;
                   avgY = sumY / n
               in if avgY > 0 then slope / avgY else 0)"




section \<open>The runtime's Date\<close>

text \<open>
  A JavaScript \<open>Date\<close> is kept as its calendar fields (year, month \<open>0..11\<close>, day of the month,
  milliseconds within the day), always normalised; the local time zone is taken to be UTC,
  so that \<open>new Date('YYYY-MM-DD')\<close> is midnight of that day and \<open>toISOString\<close> prints the same
  fields. \<open>setMonth\<close> and \<open>setDate\<close> accept any integer and carry into the neighbouring
  months and years, as the language standard's \<open>MakeDay\<close> does.
\<close>

record jsdate =
  d_year :: int
  d_month :: int
  d_date :: int
  d_ms :: int

definition isLeapYear :: "int \<Rightarrow> bool" where
  "isLeapYear y = (y mod 4 = 0 \<and> (y mod 100 \<noteq> 0 \<or> y mod 400 = 0))"

definition daysInMonth :: "int \<Rightarrow> int \<Rightarrow> int" where
  "daysInMonth y m =
     (if m = 1 then (if isLeapYear y then 29 else 28)
      else if m = 3 \<or> m = 5 \<or> m = 8 \<or> m = 10 then 30 else 31)"

text \<open>Days in the month with index \<open>mi = 12 * year + month\<close>.\<close>

definition daysInMonthIndex :: "int \<Rightarrow> int" where
  "daysInMonthIndex mi = daysInMonth (mi div 12) (mi mod 12)"

text \<open>
  Carrying a day of the month that lies outside its month: backwards through the previous
  months while it is below 1, forwards while it exceeds the month's length.
\<close>

function normDay :: "int \<Rightarrow> int \<Rightarrow> int \<times> int" where
  "normDay mi d =
     (if d < 1 then normDay (mi - 1) (d + daysInMonthIndex (mi - 1))
      else if d > daysInMonthIndex mi then normDay (mi + 1) (d - daysInMonthIndex mi)
      else (mi, d))"
  by pat_completeness auto
termination
proof (relation "measure (\<lambda>(mi, d). if d < 1 then nat (1 - d) + 32 else nat d)")
  show "wf (measure (\<lambda>(mi, d). if d < 1 then nat (1 - d) + 32 else nat d))"
    by simp
next
  fix mi d :: int
  assume "d < 1"
  moreover have "28 \<le> daysInMonthIndex (mi - 1)" "daysInMonthIndex (mi - 1) \<le> 31"
    by (simp_all add: daysInMonthIndex_def daysInMonth_def)
  ultimately show "((mi - 1, d + daysInMonthIndex (mi - 1)), (mi, d))
      \<in> measure (\<lambda>(mi, d). if d < 1 then nat (1 - d) + 32 else nat d)"
    by auto
next
  fix mi d :: int
  assume "\<not> d < 1" "daysInMonthIndex mi < d"
  moreover have "28 \<le> daysInMonthIndex mi"
    by (simp add: daysInMonthIndex_def daysInMonth_def)
  ultimately show "((mi + 1, d - daysInMonthIndex mi), (mi, d))
      \<in> measure (\<lambda>(mi, d). if d < 1 then nat (1 - d) + 32 else nat d)"
    by auto
qed

declare normDay.simps [simp del]

text \<open>\<open>MakeDay(year, month, date)\<close>, returned as calendar fields.\<close>

definition makeDay :: "int \<Rightarrow> int \<Rightarrow> int \<Rightarrow> int \<times> int \<times> int" where
  "makeDay y m d = (case normDay (12 * y + m) d of (mi, d') \<Rightarrow> (mi div 12, mi mod 12, d'))"

definition setMonth :: "jsdate \<Rightarrow> int \<Rightarrow> jsdate" where
  "setMonth dt m =
     (case makeDay (d_year dt) m (d_date dt) of
        (y, mo, d) \<Rightarrow> dt\<lparr>d_year := y, d_month := mo, d_date := d\<rparr>)"

definition setDate :: "jsdate \<Rightarrow> int \<Rightarrow> jsdate" where
  "setDate dt d =
     (case makeDay (d_year dt) (d_month dt) d of
        (y, mo, d') \<Rightarrow> dt\<lparr>d_year := y, d_month := mo, d_date := d'\<rparr>)"

text \<open>\<open>DayFromYear\<close> of the language standard: the day number of 1 January.\<close>

definition dayFromYear :: "int \<Rightarrow> int" where
  "dayFromYear y = 365 * (y - 1970) + (y - 1969) div 4 - (y - 1901) div 100 + (y - 1601) div 400"

definition daysBeforeMonth :: "int \<Rightarrow> int \<Rightarrow> int" where
  "daysBeforeMonth y m =
     [0, 31, 59, 90, 120, 151, 181, 212, 243, 273, 304, 334] ! nat m
     + (if isLeapYear y \<and> m \<ge> 2 then 1 else 0)"

definition dayNumber :: "jsdate \<Rightarrow> int" where
  "dayNumber dt = dayFromYear (d_year dt) + daysBeforeMonth (d_year dt) (d_month dt) + d_date dt - 1"

text \<open>\<open>getTime()\<close>: milliseconds since the epoch.\<close>

definition getTime :: "jsdate \<Rightarrow> int" where
  "getTime dt = dayNumber dt * 86400000 + d_ms dt"

text \<open>\<open>new Date(s)\<close> for a stored date \<open>s\<close>, and \<open>toISOString().split('T')[0]\<close>.\<close>

definition parseDate :: "isodate \<Rightarrow> jsdate" where
  "parseDate s = \<lparr>d_year = iso_year s, d_month = iso_month s - 1, d_date = iso_day s, d_ms = 0\<rparr>"


section \<open>The runtime's objects used as dictionaries\<close>

text \<open>
  A plain object used as a dictionary is an association list in insertion order. Reading a
  key that \<open>Object.prototype\<close> defines finds the inherited member, which is truthy and has no
  \<open>push\<close>: the grouping loops then throw a \<open>TypeError\<close>, modelled as \<open>None\<close>.
\<close>

definition objectPrototypeKeys :: "string list" where
  "objectPrototypeKeys =
     [''constructor'', ''__proto__'', ''hasOwnProperty'', ''isPrototypeOf'',
      ''propertyIsEnumerable'', ''toLocaleString'', ''toString'', ''valueOf'',
      ''__defineGetter__'', ''__defineSetter__'', ''__lookupGetter__'', ''__lookupSetter__'']"

text \<open>\<open>if (!obj[k]) obj[k] = []; obj[k].push(v)\<close>.\<close>

fun insertPush :: "(string \<times> 'a list) list \<Rightarrow> string \<Rightarrow> 'a \<Rightarrow> (string \<times> 'a list) list" where
  "insertPush [] k v = [(k, [v])]"
| "insertPush ((k', vs) # rest) k v =
     (if k' = k then (k', vs @ [v]) # rest else (k', vs) # insertPush rest k v)"

definition groupPush :: "(string \<times> 'a list) list \<Rightarrow> string \<Rightarrow> 'a \<Rightarrow> (string \<times> 'a list) list option" where
  "groupPush obj k v = (if k \<in> set objectPrototypeKeys then None else Some (insertPush obj k v))"

text \<open>Decimal digits of a natural number, and \<open>String(n)\<close> for an integer.\<close>

fun digitsOf :: "nat \<Rightarrow> string" where
  "digitsOf n =
     (if n < 10 then [''0123456789'' ! n]
      else digitsOf (n div 10) @ [''0123456789'' ! (n mod 10)])"

declare digitsOf.simps [simp del]

definition intToString :: "int \<Rightarrow> string" where
  "intToString i = (if i < 0 then ''-'' @ digitsOf (nat (- i)) else digitsOf (nat i))"

text \<open>
  A key is an array index when it is the canonical decimal form of a number below
  \<open>2^32 - 1\<close>; \<open>Object.entries\<close> and \<open>Object.keys\<close> list those keys first, in ascending
  numeric order, and all other keys after them in insertion order.
\<close>

definition digitValue :: "char \<Rightarrow> nat" where
  "digitValue c = of_char c - 48"

definition isDigit :: "char \<Rightarrow> bool" where
  "isDigit c = (48 \<le> (of_char c :: nat) \<and> (of_char c :: nat) \<le> 57)"

definition arrayIndex :: "string \<Rightarrow> nat option" where
  "arrayIndex k =
     (if k = [] \<or> \<not> list_all isDigit k then None
      else if length k > 1 \<and> hd k = CHR ''0'' then None
      else if length k > 10 then None
      else let n = foldl (\<lambda>acc c. 10 * acc + digitValue c) 0 k
           in if n < 4294967295 then Some n else None)"

definition objectEntries :: "(string \<times> 'a) list \<Rightarrow> (string \<times> 'a) list" where
  "objectEntries obj =
     sort_key (\<lambda>(k, v). the (arrayIndex k)) (filter (\<lambda>(k, v). arrayIndex k \<noteq> None) obj)
     @ filter (\<lambda>(k, v). arrayIndex k = None) obj"

section \<open>Recurring-pattern detector\<close>















section \<open>Pattern analyzer\<close>

record categoryPattern =
  p_category :: string
  avgAmount :: real
  stdDeviation :: real
  monthlyTrend :: "real list"
  confidence :: real

definition categoryOf :: "txn \<Rightarrow> string" where
  "categoryOf t = orElse (category_name t) ''Uncategorized''"

fun groupByCategory :: "txn list \<Rightarrow> (string \<times> real list) list \<Rightarrow> (string \<times> real list) list option" where
  "groupByCategory [] categoryData = Some categoryData"
| "groupByCategory (t # rest) categoryData =
     (case groupPush categoryData (categoryOf t) (amount t) of
        None \<Rightarrow> None
      | Some categoryData' \<Rightarrow> groupByCategory rest categoryData')"

definition monthStartOf :: "jsdate \<Rightarrow> int \<Rightarrow> jsdate" where
  "monthStartOf now i = setDate (setMonth now (d_month now - i)) 1"

definition monthEndOf :: "jsdate \<Rightarrow> jsdate" where
  "monthEndOf monthStart = setDate (setMonth monthStart (d_month monthStart + 1)) 0"

text \<open>
  The filter of one month: each amount is looked up again in the whole result
  (\<open>transactions.find(t => Number(t.amount) === a)\<close>) and the date of the row found decides.
\<close>

definition inMonth :: "txn list \<Rightarrow> jsdate \<Rightarrow> jsdate \<Rightarrow> real \<Rightarrow> bool" where
  "inMonth transactions monthStart monthEnd a =
     (case find (\<lambda>t. amount t = a) transactions of
        None \<Rightarrow> False
      | Some txnMonth \<Rightarrow>
          getTime (parseDate (transaction_date txnMonth)) \<ge> getTime monthStart \<and>
          getTime (parseDate (transaction_date txnMonth)) \<le> getTime monthEnd)"

definition monthAmount :: "jsdate \<Rightarrow> txn list \<Rightarrow> real list \<Rightarrow> int \<Rightarrow> real" where
  "monthAmount now transactions amounts i =
     (let monthStart = monthStartOf now i;
          monthEnd = monthEndOf monthStart
      in sumList (filter (inMonth transactions monthStart monthEnd) amounts))"

text \<open>The loop \<open>i = 0..5\<close> with \<open>unshift\<close>: the last month computed comes first.\<close>

definition monthlyTrendOf :: "jsdate \<Rightarrow> txn list \<Rightarrow> real list \<Rightarrow> real list" where
  "monthlyTrendOf now transactions amounts =
     foldl (\<lambda>trend i. monthAmount now transactions amounts i # trend) [] [0, 1, 2, 3, 4, 5]"

definition patternOf :: "jsdate \<Rightarrow> txn list \<Rightarrow> string \<Rightarrow> real list \<Rightarrow> categoryPattern" where
  "patternOf now transactions cat amounts =
     (let avg = sumList amounts / real (length amounts);
          variance = sumSquares avg amounts / real (length amounts)
      in \<lparr>p_category = cat,
          avgAmount = avg,
          stdDeviation = sqrt variance,
          monthlyTrend = monthlyTrendOf now transactions amounts,
          confidence = min (real (length amounts) / 10) 1\<rparr>)"

text \<open>
  \<open>data\<close> is the expense rows of the window and \<open>now\<close> the clock read by \<open>new Date()\<close>.
  The final \<open>sort\<close> is stable and descending in \<open>avgAmount\<close>.
\<close>

definition analyzeCategoryPatterns :: "jsdate \<Rightarrow> txn list option \<Rightarrow> categoryPattern list" where
  "analyzeCategoryPatterns now data =
     (case data of
        None \<Rightarrow> []
      | Some transactions \<Rightarrow>
          if length transactions = 0 then []
          else
            (case groupByCategory transactions [] of
               None \<Rightarrow> []
             | Some categoryData \<Rightarrow>
                 sort_key (\<lambda>p. - avgAmount p)
                   (map (\<lambda>(cat, amounts). patternOf now transactions cat amounts)
                        (filter (\<lambda>(cat, amounts). \<not> length amounts < 2)
                                (objectEntries categoryData)))))"

section \<open>Cash-flow forecaster\<close>

text \<open>The month label is kept as the month and year that \<open>toLocaleDateString\<close> prints.\<close>

record cashFlowForecast =
  f_month :: "int \<times> int"
  predictedIncome :: real
  predictedExpense :: real
  predictedSavings :: real
  f_confidence :: real

record monthTotals =
  m_income :: real
  m_expense :: real

definition padStart2 :: "string \<Rightarrow> string" where
  "padStart2 s = replicate (2 - length s) (CHR ''0'') @ s"

definition monthKey :: "txn \<Rightarrow> string" where
  "monthKey t =
     (let date = parseDate (transaction_date t)
      in intToString (d_year date) @ ''-'' @ padStart2 (intToString (d_month date + 1)))"

definition addToMonth :: "txn \<Rightarrow> monthTotals \<Rightarrow> monthTotals" where
  "addToMonth t m =
     (if txn_type t = Income then m\<lparr>m_income := m_income m + amount t\<rparr>
      else if txn_type t = Expense then m\<lparr>m_expense := m_expense m + amount t\<rparr>
      else m)"

fun updateMonth :: "(string \<times> monthTotals) list \<Rightarrow> string \<Rightarrow> txn \<Rightarrow> (string \<times> monthTotals) list" where
  "updateMonth [] k t = [(k, addToMonth t \<lparr>m_income = 0, m_expense = 0\<rparr>)]"
| "updateMonth ((k', m) # rest) k t =
     (if k' = k then (k', addToMonth t m) # rest else (k', m) # updateMonth rest k t)"

fun bucketMonths :: "txn list \<Rightarrow> (string \<times> monthTotals) list \<Rightarrow> (string \<times> monthTotals) list" where
  "bucketMonths [] monthlyData = monthlyData"
| "bucketMonths (t # rest) monthlyData = bucketMonths rest (updateMonth monthlyData (monthKey t) t)"

definition sortedMonthTotals :: "txn list \<Rightarrow> monthTotals list" where
  "sortedMonthTotals transactions =
     (let monthlyData = bucketMonths transactions [];
          sortedMonths = sort (map fst (objectEntries monthlyData))
      in map (\<lambda>m. the (map_of monthlyData m)) sortedMonths)"

definition incomeValues :: "txn list \<Rightarrow> real list" where
  "incomeValues transactions = map m_income (sortedMonthTotals transactions)"

definition expenseValues :: "txn list \<Rightarrow> real list" where
  "expenseValues transactions = map m_expense (sortedMonthTotals transactions)"

text \<open>\<open>xs.slice(-3)\<close>.\<close>

definition lastThree :: "real list \<Rightarrow> real list" where
  "lastThree xs = drop (length xs - 3) xs"

definition forecastPoint :: "jsdate \<Rightarrow> real \<Rightarrow> real \<Rightarrow> real \<Rightarrow> real \<Rightarrow> int \<Rightarrow> cashFlowForecast" where
  "forecastPoint now avgIncome avgExpense recentIncomeTrend recentExpenseTrend i =
     (let futureDate = setMonth now (d_month now + i);
          pIncome = max 0 (avgIncome * (1 + recentIncomeTrend * 0.5));
          pExpense = max 0 (avgExpense * (1 + recentExpenseTrend * 0.5))
      in \<lparr>f_month = (d_month futureDate, d_year futureDate),
          predictedIncome = pIncome,
          predictedExpense = pExpense,
          predictedSavings = pIncome - pExpense,
          f_confidence = 0.75\<rparr>)"

definition forecastCashFlow :: "jsdate \<Rightarrow> txn list option \<Rightarrow> int \<Rightarrow> cashFlowForecast list" where
  "forecastCashFlow now data monthsAhead =
     (case data of
        None \<Rightarrow> []
      | Some transactions \<Rightarrow>
          if length transactions = 0 then []
          else
            let incomeVs = incomeValues transactions;
                expenseVs = expenseValues transactions;
                avgIncome = sumList incomeVs / real (length incomeVs);
                avgExpense = sumList expenseVs / real (length expenseVs);
                recentIncomeTrend = calculateTrend (lastThree incomeVs);
                recentExpenseTrend = calculateTrend (lastThree expenseVs)
            in map (forecastPoint now avgIncome avgExpense recentIncomeTrend recentExpenseTrend)
                   [1..monthsAhead])"

section \<open>Rows of the worked examples\<close>

definition isoDate :: "int \<Rightarrow> int \<Rightarrow> int \<Rightarrow> isodate" where
  "isoDate y m d = \<lparr>iso_year = y, iso_month = m, iso_day = d\<rparr>"

text \<open>A row with identifier, amount, kind, category, date and creation timestamp.\<close>

definition exampleTxn :: "string \<Rightarrow> real \<Rightarrow> txnType \<Rightarrow> string \<Rightarrow> isodate \<Rightarrow> int \<Rightarrow> txn" where
  "exampleTxn i a k c d ts =
     \<lparr>txn_id = i, amount = a, txn_type = k, merchant = Some ''Shop'', transaction_date = d,
      category_id = Some c, category_name = Some c, account_id = ''acc'', created_at = ts\<rparr>"

definition exampleNow :: jsdate where
  "exampleNow = \<lparr>d_year = 2024, d_month = 4, d_date = 20, d_ms = 43200000\<rparr>"

text \<open>
  The rows of the anomaly example: four expenses of one category with the amounts
  100, 102, 98, 101, and a newer expense of the same category put in front of them.
\<close>

definition foodExpense :: "string \<Rightarrow> real \<Rightarrow> int \<Rightarrow> txn" where
  "foodExpense i a day = exampleTxn i a Expense ''Food'' (isoDate 2024 5 day) (day * 86400000)"



text \<open>Five expenses of 100 and a newer one of 119, and one expense of 100 under one of 110.\<close>

definition flatHistory :: "txn list" where
  "flatHistory =
     [foodExpense ''new'' 119 15, foodExpense ''f1'' 100 10, foodExpense ''f2'' 100 8,
      foodExpense ''f3'' 100 6, foodExpense ''f4'' 100 4, foodExpense ''f5'' 100 2]"

definition pairHistory :: "txn list" where
  "pairHistory = [foodExpense ''new'' 110 15, foodExpense ''h1'' 100 10]"


text \<open>Six months, each with one income of 50000 and one expense of 40000, newest first.\<close>

definition forecastExample :: "txn list" where
  "forecastExample =
     [exampleTxn ''e6'' 40000 Expense ''Rent'' (isoDate 2024 5 2) 0,
      exampleTxn ''i6'' 50000 Income ''Salary'' (isoDate 2024 5 1) 0,
      exampleTxn ''e5'' 40000 Expense ''Rent'' (isoDate 2024 4 2) 0,
      exampleTxn ''i5'' 50000 Income ''Salary'' (isoDate 2024 4 1) 0,
      exampleTxn ''e4'' 40000 Expense ''Rent'' (isoDate 2024 3 2) 0,
      exampleTxn ''i4'' 50000 Income ''Salary'' (isoDate 2024 3 1) 0,
      exampleTxn ''e3'' 40000 Expense ''Rent'' (isoDate 2024 2 2) 0,
      exampleTxn ''i3'' 50000 Income ''Salary'' (isoDate 2024 2 1) 0,
      exampleTxn ''e2'' 40000 Expense ''Rent'' (isoDate 2024 1 2) 0,
      exampleTxn ''i2'' 50000 Income ''Salary'' (isoDate 2024 1 1) 0,
      exampleTxn ''e1'' 40000 Expense ''Rent'' (isoDate 2023 12 2) 0,
      exampleTxn ''i1'' 50000 Income ''Salary'' (isoDate 2023 12 1) 0]"





section \<open>Notions of the specification\<close>



definition firstDay :: "int \<Rightarrow> int" where
  "firstDay mi = dayFromYear (mi div 12) + daysBeforeMonth (mi div 12) (mi mod 12)"

(*PROPERTIES*)
section \<open>Health scorer: the threshold ladder\<close>



section \<open>Empty input\<close>

text \<open>
  Claim C8. On an empty (or null) query result the anomaly detector, the pattern analyzer
  and the cash-flow forecaster each return the empty sequence; the model has no error
  branch on this path, so nothing is thrown.
\<close>

theorem empty_input_yields_empty_result:
  "detectAnomalies (Some []) = [] \<and> detectAnomalies None = [] \<and>
   analyzeCategoryPatterns now (Some []) = [] \<and> analyzeCategoryPatterns now None = [] \<and>
   forecastCashFlow now (Some []) monthsAhead = [] \<and> forecastCashFlow now None monthsAhead = []"
  by (simp add: detectAnomalies_def analyzeCategoryPatterns_def forecastCashFlow_def)

theorem empty_input_yields_empty_result_witness:
  "detectAnomalies (Some []) = [] \<and>
   analyzeCategoryPatterns exampleNow (Some []) = [] \<and>
   forecastCashFlow exampleNow (Some []) 3 = []"
  using empty_input_yields_empty_result [of exampleNow 3] by simp

section \<open>Trend ratio\<close>








section \<open>Anomaly detector: spikes\<close>

lemma foodExpense_sel:
  "txn_id (foodExpense i a d) = i" "amount (foodExpense i a d) = a"
  "txn_type (foodExpense i a d) = Expense" "category_id (foodExpense i a d) = Some ''Food''"
  "created_at (foodExpense i a d) = d * 86400000"
  by (simp_all add: foodExpense_def exampleTxn_def)

lemma spikeLoop_filter:
  "spikeLoop transactions recent alerts =
     alerts @ map (spikeAlert transactions)
                  (filter (\<lambda>c. txn_type c = Expense \<and> similarTo transactions c \<noteq> [] \<and>
                               isSpike transactions c) recent)"
  by (induction recent arbitrary: alerts) simp_all

lemma sumSquares_nonneg_aux: "0 \<le> (acc::real) \<Longrightarrow> 0 \<le> foldl (\<lambda>sq n. sq + (n - avg) ^ 2) acc xs"
proof (induction xs arbitrary: acc)
  case Nil
  then show ?case by simp
next
  case (Cons x xs)
  have "0 \<le> acc + (x - avg) ^ 2" using Cons.prems by (simp add: add_nonneg_nonneg)
  from Cons.IH [OF this] show ?case by simp
qed

lemma sumSquares_nonneg: "0 \<le> sumSquares avg xs"
  by (simp add: sumSquares_def sumSquares_nonneg_aux)

lemma not_spike_criterion:
  assumes "0 \<le> v" and "a - m \<le> 0 \<or> (a - m) ^ 2 \<le> 4 * v"
  shows "\<not> a > m + 2 * sqrt v"
proof (cases "a - m \<le> 0")
  case True
  moreover have "0 \<le> sqrt v" using assms(1) by simp
  ultimately show ?thesis by linarith
next
  case False
  with assms(2) have "(a - m) ^ 2 \<le> (2 * sqrt v) ^ 2"
    using assms(1) by (simp add: power_mult_distrib)
  moreover have "0 \<le> 2 * sqrt v" using assms(1) by simp
  ultimately have "a - m \<le> 2 * sqrt v"
    using power2_le_imp_le by blast
  then show ?thesis by linarith
qed

lemma not_spike_amounts:
  assumes "spikeAmounts transactions c = amounts"
    and "amount c - spikeAvg amounts \<le> 0 \<or>
         (amount c - spikeAvg amounts) ^ 2 \<le> 4 * (sumSquares (spikeAvg amounts) amounts / real (length amounts))"
  shows "\<not> isSpike transactions c"
proof -
  have "0 \<le> sumSquares (spikeAvg amounts) amounts / real (length amounts)"
    by (simp add: sumSquares_nonneg)
  from not_spike_criterion [OF this assms(2)] show ?thesis
    by (simp add: isSpike_def Let_def spikeStdDev_def assms(1))
qed











lemma spike_criterion:
  assumes "0 \<le> v" and "m < a" and "4 * v < (a - m) ^ 2"
  shows "a > m + 2 * sqrt v"
proof -
  have "v < ((a - m) / 2) ^ 2"
    using assms(3) by (simp add: power_divide)
  moreover have "0 \<le> (a - m) / 2"
    using assms(2) by simp
  ultimately have "sqrt v < (a - m) / 2"
    by (rule real_less_lsqrt [rotated])
  then show ?thesis by (simp add: field_simps)
qed

lemma flat_amounts:
  "spikeAmounts flatHistory (foodExpense ''new'' 119 15) = [119, 100, 100, 100, 100, 100]"
  "spikeAmounts flatHistory (foodExpense ''f1'' 100 10) = [100, 119, 100, 100, 100, 100]"
  "spikeAmounts flatHistory (foodExpense ''f2'' 100 8) = [100, 119, 100, 100, 100, 100]"
  "spikeAmounts flatHistory (foodExpense ''f3'' 100 6) = [100, 119, 100, 100, 100, 100]"
  "spikeAmounts flatHistory (foodExpense ''f4'' 100 4) = [100, 119, 100, 100, 100, 100]"
  "spikeAmounts flatHistory (foodExpense ''f5'' 100 2) = [100, 119, 100, 100, 100, 100]"
  by (simp_all add: spikeAmounts_def similarTo_def flatHistory_def foodExpense_sel)

lemma flat_avg:
  "spikeAvg [119, 100, 100, 100, 100, 100] = 619 / 6"
  "spikeAvg [100, 119, 100, 100, 100, 100] = 619 / 6"
  by (simp_all add: spikeAvg_def sumList_def)

lemma flat_spike: "isSpike flatHistory (foodExpense ''new'' 119 15)"
  unfolding isSpike_def Let_def spikeStdDev_def flat_amounts flat_avg
  by (rule spike_criterion)
     (simp_all add: sumSquares_nonneg foodExpense_sel, simp add: sumSquares_def power2_eq_square)

lemma flat_no_spike:
  "\<not> isSpike flatHistory (foodExpense ''f1'' 100 10)"
  "\<not> isSpike flatHistory (foodExpense ''f2'' 100 8)"
  "\<not> isSpike flatHistory (foodExpense ''f3'' 100 6)"
  "\<not> isSpike flatHistory (foodExpense ''f4'' 100 4)"
  "\<not> isSpike flatHistory (foodExpense ''f5'' 100 2)"
  by (rule not_spike_amounts, rule flat_amounts, simp add: flat_avg foodExpense_sel)+

lemma flat_similar: "similarTo flatHistory (foodExpense ''new'' 119 15) \<noteq> []"
  using flat_amounts(1) by (auto simp add: spikeAmounts_def)

lemma flat_loop:
  "spikeLoop flatHistory (take 10 flatHistory) [] = [spikeAlert flatHistory (foodExpense ''new'' 119 15)]"
proof -
  have "take 10 flatHistory = 
     [foodExpense ''new'' 119 15, foodExpense ''f1'' 100 10, foodExpense ''f2'' 100 8,
      foodExpense ''f3'' 100 6, foodExpense ''f4'' 100 4, foodExpense ''f5'' 100 2]"
    by (simp add: flatHistory_def)
  then show ?thesis
    by (simp add: spikeLoop_filter flat_spike flat_no_spike flat_similar foodExpense_sel)
qed




lemma pair_stats:
  "spikeAvg [a, b] = (a + b) / 2"
  "spikeStdDev [a, b] = \<bar>a - b\<bar> / 2"
proof -
  show avg: "spikeAvg [a, b] = (a + b) / 2"
    by (simp add: spikeAvg_def sumList_def)
  have "sumSquares ((a + b) / 2) [a, b] / 2 = ((a - b) / 2) ^ 2"
    by (simp add: sumSquares_def power2_eq_square field_simps)
  then have "spikeStdDev [a, b] = sqrt (((a - b) / 2) ^ 2)"
    by (simp add: spikeStdDev_def avg)
  then show "spikeStdDev [a, b] = \<bar>a - b\<bar> / 2"
    by simp
qed

lemma single_similar:
  assumes "length (similarTo transactions c) = 1"
  shows "spikeAvg (spikeAmounts transactions c) + 2 * spikeStdDev (spikeAmounts transactions c)
           = (amount c + amount (hd (similarTo transactions c))) / 2
             + \<bar>amount c - amount (hd (similarTo transactions c))\<bar>"
    and "amount c \<le> spikeAvg (spikeAmounts transactions c) + 2 * spikeStdDev (spikeAmounts transactions c)"
    and "\<not> isSpike transactions c"
proof -
  from assms obtain s where s: "similarTo transactions c = [s]"
    by (cases "similarTo transactions c") auto
  show eq: "spikeAvg (spikeAmounts transactions c) + 2 * spikeStdDev (spikeAmounts transactions c)
           = (amount c + amount (hd (similarTo transactions c))) / 2
             + \<bar>amount c - amount (hd (similarTo transactions c))\<bar>"
    by (simp add: spikeAmounts_def s pair_stats)
  have "amount c \<le> (amount c + amount s) / 2 + \<bar>amount c - amount s\<bar>"
    by (simp add: abs_real_def field_simps)
  then show le: "amount c \<le> spikeAvg (spikeAmounts transactions c) + 2 * spikeStdDev (spikeAmounts transactions c)"
    using eq by (simp add: s)
  then show "\<not> isSpike transactions c"
    by (simp add: isSpike_def Let_def)
qed

text \<open>
  Claim C10. A candidate with exactly one similar transaction \<open>s\<close> never produces a spike:
  over the two amounts, mean + 2 stddev is \<open>(T + s) / 2 + |T - s|\<close>, which is at least \<open>T\<close>,
  so the loop leaves the alerts unchanged for it; every spike alert the loop emits comes
  from a candidate with at least two similar transactions.
\<close>

theorem single_similar_never_spikes:
  "(length (similarTo transactions c) = 1 \<longrightarrow>
      spikeAvg (spikeAmounts transactions c) + 2 * spikeStdDev (spikeAmounts transactions c)
        = (amount c + amount (hd (similarTo transactions c))) / 2
          + \<bar>amount c - amount (hd (similarTo transactions c))\<bar> \<and>
      amount c \<le> spikeAvg (spikeAmounts transactions c) + 2 * spikeStdDev (spikeAmounts transactions c) \<and>
      \<not> isSpike transactions c \<and>
      spikeLoop transactions [c] alerts = alerts) \<and>
   (\<forall>a \<in> set (spikeLoop transactions recent []).
      \<exists>c' \<in> set recent. a = spikeAlert transactions c' \<and> 2 \<le> length (similarTo transactions c'))"
proof -
  have "2 \<le> length (similarTo transactions c')"
    if "similarTo transactions c' \<noteq> []" "isSpike transactions c'" for c'
  proof -
    have "length (similarTo transactions c') \<noteq> 0" "length (similarTo transactions c') \<noteq> 1"
      using that single_similar(3) [of transactions c'] by auto
    then show ?thesis by linarith
  qed
  then show ?thesis
    using single_similar [of transactions c] by (auto simp: spikeLoop_filter)
qed

lemma pair_similar:
  "similarTo pairHistory (foodExpense ''new'' 110 15) = [foodExpense ''h1'' 100 10]"
  by (simp add: similarTo_def pairHistory_def foodExpense_sel)

theorem single_similar_never_spikes_witness:
  "\<not> isSpike pairHistory (foodExpense ''new'' 110 15) \<and>
   spikeAvg (spikeAmounts pairHistory (foodExpense ''new'' 110 15))
     + 2 * spikeStdDev (spikeAmounts pairHistory (foodExpense ''new'' 110 15)) = 115 \<and>
   spikeLoop pairHistory [foodExpense ''new'' 110 15] [] = []"
  using single_similar_never_spikes [of pairHistory "foodExpense ''new'' 110 15" "[]" "[]"]
  by (simp add: pair_similar foodExpense_sel)

section \<open>Anomaly detector: duplicates\<close>







section \<open>Cash-flow forecaster\<close>

lemma forecastPoint_fields:
  "predictedIncome (forecastPoint now ai ae ti te i) = max 0 (ai * (1 + ti * 0.5))"
  "predictedExpense (forecastPoint now ai ae ti te i) = max 0 (ae * (1 + te * 0.5))"
  "predictedSavings (forecastPoint now ai ae ti te i)
     = predictedIncome (forecastPoint now ai ae ti te i) - predictedExpense (forecastPoint now ai ae ti te i)"
  "f_confidence (forecastPoint now ai ae ti te i) = 0.75"
  "f_month (forecastPoint now ai ae ti te i)
     = (d_month (setMonth now (d_month now + i)), d_year (setMonth now (d_month now + i)))"
  by (simp_all add: forecastPoint_def Let_def)

lemma flat_trend: "calculateTrend [v, v, v] = 0"
  by (simp add: calculateTrend_def algebra_simps)

text \<open>
  Claim C5. For a non-empty result the forecaster returns one point per month ahead, each
  with \<open>predictedIncome = max(0, avgIncome * (1 + incomeTrend * 0.5))\<close>,
  \<open>predictedExpense = max(0, avgExpense * (1 + expenseTrend * 0.5))\<close>, savings the
  difference of the two and confidence 0.75, where the averages run over all bucketed
  months and the trends are \<open>calculateTrend\<close> of the last three of them. With six bucketed
  months of income 50000 and expense 40000 every point is 50000, 40000, 10000, 0.75.
\<close>

theorem forecast_points:
  assumes "transactions \<noteq> []"
  shows "length (forecastCashFlow now (Some transactions) monthsAhead) = nat monthsAhead \<and>
         (\<forall>p \<in> set (forecastCashFlow now (Some transactions) monthsAhead).
            predictedIncome p =
              max 0 (sumList (incomeValues transactions) / real (length (incomeValues transactions))
                     * (1 + calculateTrend (lastThree (incomeValues transactions)) * 0.5)) \<and>
            predictedExpense p =
              max 0 (sumList (expenseValues transactions) / real (length (expenseValues transactions))
                     * (1 + calculateTrend (lastThree (expenseValues transactions)) * 0.5)) \<and>
            predictedSavings p = predictedIncome p - predictedExpense p \<and>
            f_confidence p = 0.75) \<and>
         (incomeValues transactions = [50000, 50000, 50000, 50000, 50000, 50000] \<and>
          expenseValues transactions = [40000, 40000, 40000, 40000, 40000, 40000] \<longrightarrow>
            (\<forall>p \<in> set (forecastCashFlow now (Some transactions) monthsAhead).
               predictedIncome p = 50000 \<and> predictedExpense p = 40000 \<and>
               predictedSavings p = 10000 \<and> f_confidence p = 0.75))"
proof -
  have general: "\<forall>p \<in> set (forecastCashFlow now (Some transactions) monthsAhead).
            predictedIncome p =
              max 0 (sumList (incomeValues transactions) / real (length (incomeValues transactions))
                     * (1 + calculateTrend (lastThree (incomeValues transactions)) * 0.5)) \<and>
            predictedExpense p =
              max 0 (sumList (expenseValues transactions) / real (length (expenseValues transactions))
                     * (1 + calculateTrend (lastThree (expenseValues transactions)) * 0.5)) \<and>
            predictedSavings p = predictedIncome p - predictedExpense p \<and>
            f_confidence p = 0.75"
    using assms by (auto simp add: forecastCashFlow_def Let_def forecastPoint_fields)
  have len: "length (forecastCashFlow now (Some transactions) monthsAhead) = nat monthsAhead"
    using assms by (simp add: forecastCashFlow_def Let_def)
  have flat: "predictedIncome p = 50000 \<and> predictedExpense p = 40000 \<and>
              predictedSavings p = 10000 \<and> f_confidence p = 0.75"
    if "p \<in> set (forecastCashFlow now (Some transactions) monthsAhead)"
      and "incomeValues transactions = [50000, 50000, 50000, 50000, 50000, 50000]"
      and "expenseValues transactions = [40000, 40000, 40000, 40000, 40000, 40000]" for p
    using general that by (simp add: lastThree_def flat_trend sumList_def)
  from general len flat show ?thesis by blast
qed

lemma monthKey_example:
  "monthKey (exampleTxn i a k c (isoDate 2024 m d) ts) = ''2024-'' @ padStart2 (intToString m)"
  "monthKey (exampleTxn i a k c (isoDate 2023 m d) ts) = ''2023-'' @ padStart2 (intToString m)"
  by (simp_all add: monthKey_def exampleTxn_def isoDate_def parseDate_def intToString_def
      digitsOf.simps Let_def)

lemma example_keys:
  "map monthKey forecastExample =
     [''2024-05'', ''2024-05'', ''2024-04'', ''2024-04'', ''2024-03'', ''2024-03'',
      ''2024-02'', ''2024-02'', ''2024-01'', ''2024-01'', ''2023-12'', ''2023-12'']"
  by (simp add: forecastExample_def monthKey_example intToString_def digitsOf.simps padStart2_def)

lemma exampleTxn_sel:
  "txn_type (exampleTxn i a k c d ts) = k" "amount (exampleTxn i a k c d ts) = a"
  by (simp_all add: exampleTxn_def)

lemma example_buckets:
  "bucketMonths forecastExample [] =
     [(''2024-05'', \<lparr>m_income = 50000, m_expense = 40000\<rparr>),
      (''2024-04'', \<lparr>m_income = 50000, m_expense = 40000\<rparr>),
      (''2024-03'', \<lparr>m_income = 50000, m_expense = 40000\<rparr>),
      (''2024-02'', \<lparr>m_income = 50000, m_expense = 40000\<rparr>),
      (''2024-01'', \<lparr>m_income = 50000, m_expense = 40000\<rparr>),
      (''2023-12'', \<lparr>m_income = 50000, m_expense = 40000\<rparr>)]"
  by (simp add: forecastExample_def monthKey_example intToString_def digitsOf.simps padStart2_def
      addToMonth_def exampleTxn_sel)

lemma example_entries:
  "objectEntries (bucketMonths forecastExample []) = bucketMonths forecastExample []"
  by (simp add: example_buckets objectEntries_def arrayIndex_def isDigit_def)

lemma example_sorted:
  "sort (map fst (bucketMonths forecastExample [])) =
     [''2023-12'', ''2024-01'', ''2024-02'', ''2024-03'', ''2024-04'', ''2024-05'']"
  by (simp add: example_buckets)

lemma lookup_eval:
  "map (\<lambda>m. the (map_of
     [(''2024-05'', \<lparr>m_income = 50000, m_expense = 40000\<rparr>),
      (''2024-04'', \<lparr>m_income = 50000, m_expense = 40000\<rparr>),
      (''2024-03'', \<lparr>m_income = 50000, m_expense = 40000\<rparr>),
      (''2024-02'', \<lparr>m_income = 50000, m_expense = 40000\<rparr>),
      (''2024-01'', \<lparr>m_income = 50000, m_expense = 40000\<rparr>),
      (''2023-12'', \<lparr>m_income = 50000, m_expense = 40000\<rparr>)] m))
     [''2023-12'', ''2024-01'', ''2024-02'', ''2024-03'', ''2024-04'', ''2024-05'']
   = [\<lparr>m_income = 50000, m_expense = 40000\<rparr>, \<lparr>m_income = 50000, m_expense = 40000\<rparr>,
      \<lparr>m_income = 50000, m_expense = 40000\<rparr>, \<lparr>m_income = 50000, m_expense = 40000\<rparr>,
      \<lparr>m_income = 50000, m_expense = 40000\<rparr>, \<lparr>m_income = 50000, m_expense = 40000\<rparr>]"
  by simp

lemma example_totals:
  "sortedMonthTotals forecastExample =
     [\<lparr>m_income = 50000, m_expense = 40000\<rparr>, \<lparr>m_income = 50000, m_expense = 40000\<rparr>,
      \<lparr>m_income = 50000, m_expense = 40000\<rparr>, \<lparr>m_income = 50000, m_expense = 40000\<rparr>,
      \<lparr>m_income = 50000, m_expense = 40000\<rparr>, \<lparr>m_income = 50000, m_expense = 40000\<rparr>]"
proof -
  have "sortedMonthTotals forecastExample =
          map (\<lambda>m. the (map_of (bucketMonths forecastExample []) m))
              (sort (map fst (objectEntries (bucketMonths forecastExample []))))"
    by (simp only: sortedMonthTotals_def Let_def)
  then show ?thesis
    by (simp only: example_entries example_sorted) (simp only: example_buckets lookup_eval)
qed

lemma example_values:
  "incomeValues forecastExample = [50000, 50000, 50000, 50000, 50000, 50000]"
  "expenseValues forecastExample = [40000, 40000, 40000, 40000, 40000, 40000]"
  by (simp_all add: incomeValues_def expenseValues_def example_totals)

text \<open>The six flat months of the example, forecast two months ahead.\<close>

theorem forecast_points_witness:
  "map predictedIncome (forecastCashFlow exampleNow (Some forecastExample) 2) = [50000, 50000] \<and>
   map predictedExpense (forecastCashFlow exampleNow (Some forecastExample) 2) = [40000, 40000] \<and>
   map predictedSavings (forecastCashFlow exampleNow (Some forecastExample) 2) = [10000, 10000] \<and>
   map f_confidence (forecastCashFlow exampleNow (Some forecastExample) 2) = [0.75, 0.75]"
proof -
  have ne: "forecastExample \<noteq> []" by (simp add: forecastExample_def)
  have "length (forecastCashFlow exampleNow (Some forecastExample) 2) = Suc (Suc 0)"
    using forecast_points [OF ne, of exampleNow 2] by simp
  then obtain p q where pq: "forecastCashFlow exampleNow (Some forecastExample) 2 = [p, q]"
    by (auto simp add: length_Suc_conv)
  show ?thesis
    using forecast_points [OF ne, of exampleNow 2] by (simp add: pq example_values)
qed

section \<open>Calendar arithmetic\<close>

lemma daysInMonthIndex_bounds: "28 \<le> daysInMonthIndex mi" "daysInMonthIndex mi \<le> 31"
  by (simp_all add: daysInMonthIndex_def daysInMonth_def)



lemma div_step:
  fixes x k :: int
  assumes "0 < k"
  shows "(x + 1) div k = (if (x + 1) mod k = 0 then x div k + 1 else x div k)"
proof (cases "(x + 1) mod k = 0")
  case True
  then obtain q where q: "x + 1 = k * q" by (auto simp: mod_eq_0_iff_dvd)
  then have x: "x = k * (q - 1) + (k - 1)" by (simp add: algebra_simps)
  have "(k * (q - 1) + (k - 1)) div k = (q - 1) + (k - 1) div k"
    using assms by (intro div_mult_self4) simp
  also have "(k - 1) div k = 0"
    using assms by (intro div_pos_pos_trivial) simp_all
  finally have "x div k = q - 1" using x by simp
  moreover have "(x + 1) div k = q" using q assms by simp
  ultimately show ?thesis using True by simp
next
  case False
  have lt: "x mod k + 1 < k"
  proof -
    have "x mod k < k" using assms by simp
    moreover have "x mod k + 1 \<noteq> k"
    proof
      assume "x mod k + 1 = k"
      then have "(x mod k + 1) mod k = 0" by simp
      then have "(x + 1) mod k = 0" by (simp add: mod_add_left_eq)
      with False show False by simp
    qed
    ultimately show ?thesis by linarith
  qed
  have ge: "0 \<le> x mod k + 1" using assms by (simp add: add_nonneg_nonneg)
  have "x + 1 = k * (x div k) + (x mod k + 1)" by simp
  then have "(x + 1) div k = (k * (x div k) + (x mod k + 1)) div k" by simp
  also have "\<dots> = x div k + (x mod k + 1) div k"
    using assms by (intro div_mult_self4) simp
  also have "(x mod k + 1) div k = 0"
    using ge lt by (intro div_pos_pos_trivial)
  finally show ?thesis using False by simp
qed

lemma mod_shift:
  "(y - 1968) mod 4 = 0 \<longleftrightarrow> y mod 4 = (0::int)"
  "(y - 1900) mod 100 = 0 \<longleftrightarrow> y mod 100 = (0::int)"
  "(y - 1600) mod 400 = 0 \<longleftrightarrow> y mod 400 = (0::int)"
proof -
  have "(y + 4 * (- 492)) mod 4 = y mod 4" by (rule mod_mult_self2)
  then show "(y - 1968) mod 4 = 0 \<longleftrightarrow> y mod 4 = (0::int)" by simp
  have "(y + 100 * (- 19)) mod 100 = y mod 100" by (rule mod_mult_self2)
  then show "(y - 1900) mod 100 = 0 \<longleftrightarrow> y mod 100 = (0::int)" by simp
  have "(y + 400 * (- 4)) mod 400 = y mod 400" by (rule mod_mult_self2)
  then show "(y - 1600) mod 400 = 0 \<longleftrightarrow> y mod 400 = (0::int)" by simp
qed

lemma dayFromYear_step:
  "dayFromYear (y + 1) = dayFromYear y + (if isLeapYear y then 366 else 365)"
proof -
  define A where "A \<longleftrightarrow> y mod 4 = 0"
  define B where "B \<longleftrightarrow> y mod 100 = 0"
  define C where "C \<longleftrightarrow> y mod 400 = 0"
  define p where "p = (y - 1969) div 4"
  define q where "q = (y - 1901) div 100"
  define r where "r = (y - 1601) div 400"
  have a: "(y + 1 - 1969) div 4 = p + (if A then 1 else 0)"
    using div_step [of 4 "y - 1969"] mod_shift(1) [of y] by (simp add: algebra_simps A_def p_def)
  have b: "(y + 1 - 1901) div 100 = q + (if B then 1 else 0)"
    using div_step [of 100 "y - 1901"] mod_shift(2) [of y] by (simp add: algebra_simps B_def q_def)
  have c: "(y + 1 - 1601) div 400 = r + (if C then 1 else 0)"
    using div_step [of 400 "y - 1601"] mod_shift(3) [of y] by (simp add: algebra_simps C_def r_def)
  have CB: "B" if "C"
  proof -
    have "(100::int) dvd 400" by simp
    moreover have "400 dvd y" using that by (simp add: C_def mod_eq_0_iff_dvd)
    ultimately have "100 dvd y" by (rule dvd_trans)
    then show ?thesis by (simp add: B_def mod_eq_0_iff_dvd)
  qed
  have BA: "A" if "B"
  proof -
    have "(4::int) dvd 100" by simp
    moreover have "100 dvd y" using that by (simp add: B_def mod_eq_0_iff_dvd)
    ultimately have "4 dvd y" by (rule dvd_trans)
    then show ?thesis by (simp add: A_def mod_eq_0_iff_dvd)
  qed
  have next_year: "dayFromYear (y + 1) =
      365 * (y + 1 - 1970) + (p + (if A then 1 else 0)) - (q + (if B then 1 else 0))
        + (r + (if C then 1 else 0))"
    by (simp only: dayFromYear_def a b c)
  have this_year: "dayFromYear y = 365 * (y - 1970) + p - q + r"
    by (simp only: dayFromYear_def p_def q_def r_def)
  have leap: "isLeapYear y \<longleftrightarrow> A \<and> (\<not> B \<or> C)"
    by (simp only: isLeapYear_def A_def B_def C_def)
  show ?thesis
    unfolding next_year this_year leap
    using CB BA by (cases A; cases B; cases C; simp)
qed

lemma month_cases:
  fixes m :: int
  assumes "0 \<le> m" "m < 12"
  shows "m = 0 \<or> m = 1 \<or> m = 2 \<or> m = 3 \<or> m = 4 \<or> m = 5 \<or> m = 6 \<or> m = 7 \<or> m = 8 \<or> m = 9 \<or> m = 10 \<or> m = 11"
  using assms by arith

lemma daysBeforeMonth_step:
  assumes "0 \<le> m" "m < 11"
  shows "daysBeforeMonth y (m + 1) = daysBeforeMonth y m + daysInMonth y m"
proof -
  from assms have "m = 0 \<or> m = 1 \<or> m = 2 \<or> m = 3 \<or> m = 4 \<or> m = 5 \<or> m = 6 \<or> m = 7 \<or> m = 8 \<or> m = 9 \<or> m = 10"
    by arith
  then show ?thesis
    by (elim disjE) (simp_all add: daysBeforeMonth_def daysInMonth_def)
qed

lemma daysBeforeMonth_december:
  "daysBeforeMonth y 11 + 31 = (if isLeapYear y then 366 else 365)"
  "daysBeforeMonth y 0 = 0"
  by (simp_all add: daysBeforeMonth_def)

lemma firstDay_step: "firstDay (mi + 1) = firstDay mi + daysInMonthIndex mi"
proof (cases "mi mod 12 = 11")
  case True
  have "(mi + 1) mod 12 = (mi mod 12 + 1) mod 12"
    by (simp add: mod_add_left_eq)
  with True have "(mi + 1) mod 12 = 0" by simp
  moreover from this have "(mi + 1) div 12 = mi div 12 + 1"
    using div_step [of 12 mi] by simp
  ultimately show ?thesis
    using True daysBeforeMonth_december(1) [of "mi div 12"]
    by (simp add: firstDay_def dayFromYear_step daysInMonthIndex_def daysInMonth_def
        daysBeforeMonth_december(2))
next
  case False
  have m: "0 \<le> mi mod 12" "mi mod 12 < 12" by simp_all
  with False have lt: "mi mod 12 < 11" by linarith
  have "mi + 1 = 12 * (mi div 12) + (mi mod 12 + 1)" by simp
  then have "(mi + 1) mod 12 = (12 * (mi div 12) + (mi mod 12 + 1)) mod 12" by simp
  also have "\<dots> = (mi mod 12 + 1) mod 12" by (rule mod_mult_self4)
  also have "\<dots> = mi mod 12 + 1" using m lt by (intro mod_pos_pos_trivial) simp_all
  finally have md: "(mi + 1) mod 12 = mi mod 12 + 1" .
  then have "(mi + 1) mod 12 \<noteq> 0" using m by linarith
  then have dv: "(mi + 1) div 12 = mi div 12"
    using div_step [of 12 mi] by simp
  show ?thesis
    using daysBeforeMonth_step [OF m(1) lt, of "mi div 12"]
    by (simp add: firstDay_def md dv daysInMonthIndex_def)
qed


lemma firstDay_less: "firstDay mi < firstDay (mi + 1)"
  using daysInMonthIndex_bounds(1) [of mi] by (simp add: firstDay_step)






















end
